theory Spec2Isabelle
  imports Complex_Main "HOL-Library.Sublist"
begin

section \<open>JavaScript numbers\<close>

text \<open>
  The financial calculator computes on JavaScript numbers. A number is modelled as an exact
  real, or one of the three special values a JavaScript computation can produce. Two things
  are idealised and stated here once: finite arithmetic is exact (no rounding to 53 bits,
  no overflow or underflow), and zero carries no sign (a nonzero number divided by zero is
  the infinity with the sign of the dividend). Everything else follows the language: the
  special values propagate through the operators, every comparison with \<open>NaN\<close> is false.
\<close>

datatype jsnumber = Number real | Infinity | NegInfinity | NaN

definition inf_of_sign :: "real \<Rightarrow> jsnumber" where
  "inf_of_sign s = (if 0 < s then Infinity else if s < 0 then NegInfinity else NaN)"

fun sign_of :: "jsnumber \<Rightarrow> real" where
  "sign_of (Number x) = sgn x"
| "sign_of Infinity = 1"
| "sign_of NegInfinity = - 1"
| "sign_of NaN = 0"

fun js_neg :: "jsnumber \<Rightarrow> jsnumber" where
  "js_neg (Number x) = Number (- x)"
| "js_neg Infinity = NegInfinity"
| "js_neg NegInfinity = Infinity"
| "js_neg NaN = NaN"

text \<open>\<open>a + b\<close>\<close>

fun js_add :: "jsnumber \<Rightarrow> jsnumber \<Rightarrow> jsnumber" where
  "js_add (Number x) (Number y) = Number (x + y)"
| "js_add NaN b = NaN"
| "js_add a NaN = NaN"
| "js_add Infinity NegInfinity = NaN"
| "js_add NegInfinity Infinity = NaN"
| "js_add Infinity b = Infinity"
| "js_add a Infinity = Infinity"
| "js_add NegInfinity b = NegInfinity"
| "js_add a NegInfinity = NegInfinity"

text \<open>\<open>a - b\<close>\<close>

definition js_sub :: "jsnumber \<Rightarrow> jsnumber \<Rightarrow> jsnumber" where
  "js_sub a b = js_add a (js_neg b)"

text \<open>\<open>a * b\<close>: infinity times zero is \<open>NaN\<close>.\<close>

fun js_mul :: "jsnumber \<Rightarrow> jsnumber \<Rightarrow> jsnumber" where
  "js_mul (Number x) (Number y) = Number (x * y)"
| "js_mul NaN b = NaN"
| "js_mul a NaN = NaN"
| "js_mul a b = inf_of_sign (sign_of a * sign_of b)"

text \<open>\<open>a / b\<close>: never an error; a zero divisor gives an infinity, or \<open>NaN\<close> for \<open>0 / 0\<close>.\<close>

fun js_div :: "jsnumber \<Rightarrow> jsnumber \<Rightarrow> jsnumber" where
  "js_div NaN b = NaN"
| "js_div a NaN = NaN"
| "js_div (Number x) (Number y) = (if y = 0 then inf_of_sign (sgn x) else Number (x / y))"
| "js_div (Number x) b = Number 0"
| "js_div a (Number y) = inf_of_sign (sign_of a * (if y < 0 then - 1 else 1))"
| "js_div a b = NaN"

text \<open>\<open>a < b\<close>, \<open>a <= b\<close>, \<open>a > b\<close> and \<open>a === b\<close>\<close>

fun js_lt :: "jsnumber \<Rightarrow> jsnumber \<Rightarrow> bool" where
  "js_lt (Number x) (Number y) = (x < y)"
| "js_lt NaN b = False"
| "js_lt a NaN = False"
| "js_lt a NegInfinity = False"
| "js_lt NegInfinity b = True"
| "js_lt Infinity b = False"
| "js_lt a Infinity = True"

fun js_le :: "jsnumber \<Rightarrow> jsnumber \<Rightarrow> bool" where
  "js_le (Number x) (Number y) = (x \<le> y)"
| "js_le NaN b = False"
| "js_le a NaN = False"
| "js_le NegInfinity b = True"
| "js_le a Infinity = True"
| "js_le a b = False"

definition js_gt :: "jsnumber \<Rightarrow> jsnumber \<Rightarrow> bool" where
  "js_gt a b = js_lt b a"

fun js_strict_eq :: "jsnumber \<Rightarrow> jsnumber \<Rightarrow> bool" where
  "js_strict_eq NaN b = False"
| "js_strict_eq a NaN = False"
| "js_strict_eq a b = (a = b)"

text \<open>\<open>Math.ceil\<close>\<close>

fun Math_ceil :: "jsnumber \<Rightarrow> jsnumber" where
  "Math_ceil (Number x) = Number (of_int \<lceil>x\<rceil>)"
| "Math_ceil a = a"

text \<open>
  \<open>Math.pow\<close>, case by case as the language defines it: a zero exponent gives 1 whatever
  the base, a negative base with a fractional exponent gives \<open>NaN\<close>. An integral exponent
  is computed by repeated multiplication, any other by the real power function.
\<close>

definition is_integral :: "real \<Rightarrow> bool" where
  "is_integral y = (of_int \<lfloor>y\<rfloor> = y)"

definition is_odd_integral :: "real \<Rightarrow> bool" where
  "is_odd_integral y = (is_integral y \<and> odd \<lfloor>y\<rfloor>)"

fun Math_pow :: "jsnumber \<Rightarrow> jsnumber \<Rightarrow> jsnumber" where
  "Math_pow b NaN = NaN"
| "Math_pow b (Number y) =
    (if y = 0 then Number 1
     else (case b of
         NaN \<Rightarrow> NaN
       | Infinity \<Rightarrow> (if 0 < y then Infinity else Number 0)
       | NegInfinity \<Rightarrow>
           (if 0 < y then (if is_odd_integral y then NegInfinity else Infinity) else Number 0)
       | Number x \<Rightarrow>
           (if x = 0 then (if 0 < y then Number 0 else Infinity)
            else if is_integral y then Number (x powi \<lfloor>y\<rfloor>)
            else if x < 0 then NaN
            else Number (x powr y))))"
| "Math_pow b Infinity =
    (case b of
       NaN \<Rightarrow> NaN
     | Infinity \<Rightarrow> Infinity
     | NegInfinity \<Rightarrow> Infinity
     | Number x \<Rightarrow>
         (if x = 0 then Number 0
          else if 1 < \<bar>x\<bar> then Infinity
          else if \<bar>x\<bar> = 1 then NaN
          else Number 0))"
| "Math_pow b NegInfinity =
    (case b of
       NaN \<Rightarrow> NaN
     | Infinity \<Rightarrow> Number 0
     | NegInfinity \<Rightarrow> Number 0
     | Number x \<Rightarrow>
         (if x = 0 then Infinity
          else if 1 < \<bar>x\<bar> then Number 0
          else if \<bar>x\<bar> = 1 then NaN
          else Infinity))"

section \<open>Tax and fee primitives\<close>

text \<open>\<open>calculateTransferDuty\<close>: the 2023/2024 South African transfer duty.\<close>

definition calculateTransferDuty :: "jsnumber \<Rightarrow> jsnumber" where
  "calculateTransferDuty purchasePrice =
    (if js_le purchasePrice (Number 1000000) then Number 0
     else if js_le purchasePrice (Number 1375000) then
       js_mul (js_sub purchasePrice (Number 1000000)) (Number 0.03)
     else if js_le purchasePrice (Number 1925000) then
       js_add (Number 11250) (js_mul (js_sub purchasePrice (Number 1375000)) (Number 0.06))
     else if js_le purchasePrice (Number 2475000) then
       js_add (Number 44250) (js_mul (js_sub purchasePrice (Number 1925000)) (Number 0.08))
     else if js_le purchasePrice (Number 11000000) then
       js_add (Number 88250) (js_mul (js_sub purchasePrice (Number 2475000)) (Number 0.11))
     else
       js_add (Number 1026000) (js_mul (js_sub purchasePrice (Number 11000000)) (Number 0.13)))"

text \<open>
  The schedule in the words of the specification: bands given by their floor and marginal
  rate; the duty in a band is the cumulative duty of the bands below it (each taken over
  its full width) plus the band's rate on the excess over the band's floor.
\<close>

fun marginal_schedule :: "real \<Rightarrow> (real \<times> real) list \<Rightarrow> real \<Rightarrow> real" where
  "marginal_schedule cumulative [] p = cumulative"
| "marginal_schedule cumulative [(lo, rate)] p = cumulative + (p - lo) * rate"
| "marginal_schedule cumulative ((lo, rate) # (hi, rate') # bands) p =
    (if p \<le> hi then cumulative + (p - lo) * rate
     else marginal_schedule (cumulative + (hi - lo) * rate) ((hi, rate') # bands) p)"

definition duty_bands :: "(real \<times> real) list" where
  "duty_bands =
    [(1000000, 3 / 100), (1375000, 6 / 100), (1925000, 8 / 100),
     (2475000, 11 / 100), (11000000, 13 / 100)]"

definition progressive_duty :: "real \<Rightarrow> real" where
  "progressive_duty p = (if p \<le> 1000000 then 0 else marginal_schedule 0 duty_bands p)"

text \<open>\<open>calculateAttorneyFees\<close>: the base fee of the band, then 15\% VAT on top.\<close>

definition calculateAttorneyFees :: "jsnumber \<Rightarrow> jsnumber" where
  "calculateAttorneyFees purchasePrice =
    (let baseFee =
       (if js_le purchasePrice (Number 100000) then Number 4500
        else if js_le purchasePrice (Number 500000) then
          js_add (Number 4500) (js_mul (js_sub purchasePrice (Number 100000)) (Number 0.015))
        else if js_le purchasePrice (Number 1000000) then
          js_add (Number 10500) (js_mul (js_sub purchasePrice (Number 500000)) (Number 0.01))
        else if js_le purchasePrice (Number 5000000) then
          js_add (Number 15500) (js_mul (js_sub purchasePrice (Number 1000000)) (Number 0.007))
        else
          js_add (Number 43500) (js_mul (js_sub purchasePrice (Number 5000000)) (Number 0.003)))
     in js_mul baseFee (Number 1.15))"

text \<open>
  The fee table in the words of the specification: each band has a floor, a fixed base and
  a marginal rate on the excess over the floor; a price belongs to the first band whose
  upper bound (the next band's floor) it does not exceed.
\<close>

fun band_fee :: "(real \<times> real \<times> real) list \<Rightarrow> real \<Rightarrow> real" where
  "band_fee [] p = 0"
| "band_fee [(lo, base, rate)] p = base + (p - lo) * rate"
| "band_fee ((lo, base, rate) # (hi, base', rate') # bands) p =
    (if p \<le> hi then base + (p - lo) * rate else band_fee ((hi, base', rate') # bands) p)"

definition attorney_bands :: "(real \<times> real \<times> real) list" where
  "attorney_bands =
    [(0, 4500, 0), (100000, 4500, 15 / 1000), (500000, 10500, 1 / 100),
     (1000000, 15500, 7 / 1000), (5000000, 43500, 3 / 1000)]"

section \<open>Loan mathematics\<close>

text \<open>\<open>calculateMonthlyBondRepayment\<close>; the parameter \<open>principal\<close> is written \<open>principal'\<close>.\<close>

definition calculateMonthlyBondRepayment :: "jsnumber \<Rightarrow> jsnumber \<Rightarrow> jsnumber \<Rightarrow> jsnumber" where
  "calculateMonthlyBondRepayment principal' annualInterestRate termYears =
    (let monthlyInterestRate = js_div (js_div annualInterestRate (Number 100)) (Number 12);
         numberOfPayments = js_mul termYears (Number 12)
     in if js_strict_eq monthlyInterestRate (Number 0) then js_div principal' numberOfPayments
        else
          js_div
            (js_mul principal'
              (js_mul monthlyInterestRate
                (Math_pow (js_add (Number 1) monthlyInterestRate) numberOfPayments)))
            (js_sub (Math_pow (js_add (Number 1) monthlyInterestRate) numberOfPayments)
              (Number 1)))"

section \<open>Cost and expense assemblers\<close>

record PurchaseCosts =
  transferDuty :: jsnumber
  attorneyFees :: jsnumber
  deedsOfficeRegistration :: jsnumber
  electronicallyFacilitatedTransfer :: jsnumber
  total :: jsnumber

definition calculateTotalPurchaseCosts :: "jsnumber \<Rightarrow> PurchaseCosts" where
  "calculateTotalPurchaseCosts purchasePrice =
    (let transferDuty = calculateTransferDuty purchasePrice;
         attorneyFees = calculateAttorneyFees purchasePrice;
         deedsOfficeRegistration = Number 1500;
         electronicallyFacilitatedTransfer = Number 1800
     in \<lparr> transferDuty = transferDuty,
          attorneyFees = attorneyFees,
          deedsOfficeRegistration = deedsOfficeRegistration,
          electronicallyFacilitatedTransfer = electronicallyFacilitatedTransfer,
          total =
            js_add (js_add (js_add transferDuty attorneyFees) deedsOfficeRegistration)
              electronicallyFacilitatedTransfer \<rparr>)"

text \<open>\<open>calculateEffectiveRentalIncome\<close>\<close>

definition calculateEffectiveRentalIncome :: "jsnumber \<Rightarrow> jsnumber \<Rightarrow> jsnumber" where
  "calculateEffectiveRentalIncome expectedRent vacancyRate =
    js_mul expectedRent (js_sub (Number 1) (js_div vacancyRate (Number 100)))"

text \<open>\<open>calculateAppreciation\<close> and \<open>calculateEquityBuild\<close>, the two helpers of the ROI projection\<close>

definition calculateAppreciation :: "jsnumber \<Rightarrow> jsnumber \<Rightarrow> jsnumber \<Rightarrow> jsnumber" where
  "calculateAppreciation propertyValue annualRate years =
    (let futureValue =
       js_mul propertyValue (Math_pow (js_add (Number 1) (js_div annualRate (Number 100))) years)
     in js_sub futureValue propertyValue)"

definition calculateEquityBuild :: "jsnumber \<Rightarrow> jsnumber \<Rightarrow> jsnumber \<Rightarrow> jsnumber" where
  "calculateEquityBuild monthlyPayment totalTermYears yearsToCalculate =
    (let totalPayments = js_mul (js_mul monthlyPayment (Number 12)) yearsToCalculate;
         principalPortion = js_mul totalPayments (Number 0.4)
     in principalPortion)"

text \<open>\<open>calculateMonthlyExpenses\<close>; its argument is an object, here a record.\<close>

record MonthlyExpensesParams =
  purchasePrice :: jsnumber
  monthlyLevies :: jsnumber
  monthlyRates :: jsnumber
  maintenancePercentage :: jsnumber

record MonthlyExpenses =
  levies :: jsnumber
  ratesAndTaxes :: jsnumber
  maintenance :: jsnumber
  total :: jsnumber

definition calculateMonthlyExpenses :: "MonthlyExpensesParams \<Rightarrow> MonthlyExpenses" where
  "calculateMonthlyExpenses params =
    (let monthlyMaintenance =
       js_div
         (js_mul (MonthlyExpensesParams.purchasePrice params)
           (js_div (MonthlyExpensesParams.maintenancePercentage params) (Number 100)))
         (Number 12)
     in \<lparr> levies = MonthlyExpensesParams.monthlyLevies params,
          ratesAndTaxes = MonthlyExpensesParams.monthlyRates params,
          maintenance = monthlyMaintenance,
          total =
            js_add
              (js_add (MonthlyExpensesParams.monthlyLevies params)
                (MonthlyExpensesParams.monthlyRates params))
              monthlyMaintenance \<rparr>)"

section \<open>Yields and cash flow\<close>

record YieldsParams =
  purchasePrice :: jsnumber
  totalPurchaseCost :: jsnumber
  expectedRent :: jsnumber
  effectiveRent :: jsnumber
  monthlyExpenses :: jsnumber

record YieldMetrics =
  grossYieldOnPrice :: jsnumber
  grossYieldOnInvestment :: jsnumber
  netYieldOnPrice :: jsnumber
  netYieldOnInvestment :: jsnumber

definition calculateYields :: "YieldsParams \<Rightarrow> YieldMetrics" where
  "calculateYields params =
    \<lparr> grossYieldOnPrice =
        js_mul
          (js_div (js_mul (YieldsParams.expectedRent params) (Number 12))
            (YieldsParams.purchasePrice params))
          (Number 100),
      grossYieldOnInvestment =
        js_mul
          (js_div (js_mul (YieldsParams.expectedRent params) (Number 12))
            (YieldsParams.totalPurchaseCost params))
          (Number 100),
      netYieldOnPrice =
        js_mul
          (js_div
            (js_mul
              (js_sub (YieldsParams.effectiveRent params) (YieldsParams.monthlyExpenses params))
              (Number 12))
            (YieldsParams.purchasePrice params))
          (Number 100),
      netYieldOnInvestment =
        js_mul
          (js_div
            (js_mul
              (js_sub (YieldsParams.effectiveRent params) (YieldsParams.monthlyExpenses params))
              (Number 12))
            (YieldsParams.totalPurchaseCost params))
          (Number 100) \<rparr>"

record CashFlowParams =
  effectiveRent :: jsnumber
  monthlyExpenses :: jsnumber
  monthlyBondRepayment :: jsnumber

record CashFlowMetrics =
  monthly :: jsnumber
  annual :: jsnumber

definition calculateCashFlow :: "CashFlowParams \<Rightarrow> CashFlowMetrics" where
  "calculateCashFlow params =
    (let monthlyCashFlow =
       js_sub
         (js_sub (CashFlowParams.effectiveRent params) (CashFlowParams.monthlyExpenses params))
         (CashFlowParams.monthlyBondRepayment params);
         annualCashFlow = js_mul monthlyCashFlow (Number 12)
     in \<lparr> monthly = monthlyCashFlow, annual = annualCashFlow \<rparr>)"

section \<open>ROI projection and breakeven\<close>

text \<open>
  \<open>calculateROI\<close> takes an object whose property \<open>annualAppreciationRate\<close> may be absent
  (\<open>None\<close>); the default of the destructuring pattern, 5, then applies.
\<close>

record ROIParams =
  deposit :: jsnumber
  totalPurchaseCost :: jsnumber
  annualCashFlow :: jsnumber
  monthlyBondRepayment :: jsnumber
  loanTermYears :: jsnumber
  annualAppreciationRate :: "jsnumber option"

record ROIHorizon =
  appreciation :: jsnumber
  cashFlow :: jsnumber
  equityBuild :: jsnumber
  totalReturn :: jsnumber
  roi :: jsnumber
  annualizedROI :: jsnumber

record ROIProjection =
  fiveYear :: ROIHorizon
  tenYear :: ROIHorizon

definition calculateROI :: "ROIParams \<Rightarrow> ROIProjection" where
  "calculateROI params =
    (let deposit = ROIParams.deposit params;
         totalPurchaseCost = ROIParams.totalPurchaseCost params;
         annualCashFlow = ROIParams.annualCashFlow params;
         monthlyBondRepayment = ROIParams.monthlyBondRepayment params;
         loanTermYears = ROIParams.loanTermYears params;
         annualAppreciationRate =
           (case ROIParams.annualAppreciationRate params of None \<Rightarrow> Number 5 | Some r \<Rightarrow> r);
         initialInvestment = js_add deposit (js_sub totalPurchaseCost deposit);
         fiveYearAppreciation =
           calculateAppreciation totalPurchaseCost annualAppreciationRate (Number 5);
         fiveYearCashFlow = js_mul annualCashFlow (Number 5);
         fiveYearEquityBuild = calculateEquityBuild monthlyBondRepayment loanTermYears (Number 5);
         fiveYearTotalReturn =
           js_add (js_add fiveYearAppreciation fiveYearCashFlow) fiveYearEquityBuild;
         fiveYearROI = js_mul (js_div fiveYearTotalReturn initialInvestment) (Number 100);
         fiveYearAnnualizedROI =
           js_sub
             (Math_pow (js_add (Number 1) (js_div fiveYearROI (Number 100)))
               (js_div (Number 1) (Number 5)))
             (Number 1);
         tenYearAppreciation =
           calculateAppreciation totalPurchaseCost annualAppreciationRate (Number 10);
         tenYearCashFlow = js_mul annualCashFlow (Number 10);
         tenYearEquityBuild = calculateEquityBuild monthlyBondRepayment loanTermYears (Number 10);
         tenYearTotalReturn =
           js_add (js_add tenYearAppreciation tenYearCashFlow) tenYearEquityBuild;
         tenYearROI = js_mul (js_div tenYearTotalReturn initialInvestment) (Number 100);
         tenYearAnnualizedROI =
           js_sub
             (Math_pow (js_add (Number 1) (js_div tenYearROI (Number 100)))
               (js_div (Number 1) (Number 10)))
             (Number 1)
     in \<lparr> fiveYear =
            \<lparr> ROIHorizon.appreciation = fiveYearAppreciation,
              ROIHorizon.cashFlow = fiveYearCashFlow,
              ROIHorizon.equityBuild = fiveYearEquityBuild,
              ROIHorizon.totalReturn = fiveYearTotalReturn,
              ROIHorizon.roi = fiveYearROI,
              ROIHorizon.annualizedROI = js_mul fiveYearAnnualizedROI (Number 100) \<rparr>,
          tenYear =
            \<lparr> ROIHorizon.appreciation = tenYearAppreciation,
              ROIHorizon.cashFlow = tenYearCashFlow,
              ROIHorizon.equityBuild = tenYearEquityBuild,
              ROIHorizon.totalReturn = tenYearTotalReturn,
              ROIHorizon.roi = tenYearROI,
              ROIHorizon.annualizedROI = js_mul tenYearAnnualizedROI (Number 100) \<rparr> \<rparr>)"

record BreakevenResult =
  months :: jsnumber
  years :: jsnumber

definition calculateBreakeven :: "jsnumber \<Rightarrow> jsnumber \<Rightarrow> BreakevenResult" where
  "calculateBreakeven initialCashOutflow monthlyCashFlow =
    (if js_le monthlyCashFlow (Number 0) then \<lparr> months = Infinity, years = Infinity \<rparr>
     else
       (let months = Math_ceil (js_div initialCashOutflow monthlyCashFlow)
        in \<lparr> months = months, years = js_div months (Number 12) \<rparr>))"

section \<open>Narrative summary\<close>

record SummaryParams =
  cashFlow :: CashFlowMetrics
  yields :: YieldMetrics
  roi :: ROIProjection
  breakeven :: BreakevenResult

definition generateInvestmentSummary :: "SummaryParams \<Rightarrow> string" where
  "generateInvestmentSummary params =
    (let cashFlow = SummaryParams.cashFlow params;
         yields = SummaryParams.yields params;
         roi = SummaryParams.roi params;
         breakeven = SummaryParams.breakeven params;
         summary = [];
         summary = summary @
           (if js_gt (monthly cashFlow) (Number 500) then
              ''This property is cash flow positive, generating a healthy monthly surplus. ''
            else if js_gt (monthly cashFlow) (Number 0) then
              ''This property is slightly cash flow positive, covering all expenses with a small margin. ''
            else if js_gt (monthly cashFlow) (Number (- 500)) then
              ''This property is slightly cash flow negative, requiring a small monthly contribution. ''
            else
              ''This property is significantly cash flow negative, requiring substantial monthly contributions. '');
         summary = summary @
           (if js_gt (netYieldOnInvestment yields) (Number 8) then
              ''The net yield is excellent compared to South African market averages. ''
            else if js_gt (netYieldOnInvestment yields) (Number 6) then
              ''The net yield is good for the South African market. ''
            else if js_gt (netYieldOnInvestment yields) (Number 4) then
              ''The net yield is average for the South African market. ''
            else
              ''The net yield is below average for the South African market. '');
         summary = summary @
           (if js_gt (ROIHorizon.annualizedROI (tenYear roi)) (Number 15) then
              ''The 10-year return on investment projection is very strong. ''
            else if js_gt (ROIHorizon.annualizedROI (tenYear roi)) (Number 10) then
              ''The 10-year return on investment projection is good. ''
            else if js_gt (ROIHorizon.annualizedROI (tenYear roi)) (Number 7) then
              ''The 10-year return on investment projection is moderate. ''
            else
              ''The 10-year return on investment projection is below average. '');
         summary = summary @
           (if js_lt (years breakeven) (Number 5) then
              ''You should recover your initial investment relatively quickly. ''
            else if js_lt (years breakeven) (Number 10) then
              ''The breakeven period is reasonable for a long-term investment. ''
            else if js_lt (years breakeven) (Number 20) then
              ''The breakeven period is quite long, making this a very long-term investment. ''
            else
              ''The breakeven period extends beyond 20 years, raising concerns about this investment. '');
         summary = summary @
           (if js_gt (ROIHorizon.annualizedROI (tenYear roi)) (Number 12)
               \<and> js_gt (netYieldOnInvestment yields) (Number 6) then
              ''Overall, this property appears to be a strong investment opportunity.''
            else if js_gt (ROIHorizon.annualizedROI (tenYear roi)) (Number 8)
               \<and> js_gt (netYieldOnInvestment yields) (Number 4) then
              ''Overall, this property appears to be a reasonable investment opportunity.''
            else if js_gt (monthly cashFlow) (Number 0) then
              ''This property may be worth considering primarily for its positive cash flow, despite modest long-term returns.''
            else
              ''This property presents some investment challenges and may require careful consideration of future market trends and personal investment goals.'')
     in summary)"

section \<open>The forecast\<close>

text \<open>
  The input object of \<open>generatePropertyForecast\<close>. It is an extensible record: whatever other
  properties the caller's object carries are never read.
\<close>

record PropertyData =
  propertyType :: string
  purchasePrice :: jsnumber
  deposit :: jsnumber
  interestRate :: jsnumber
  loanTerm :: jsnumber
  monthlyLevies :: jsnumber
  monthlyRates :: jsnumber
  expectedRent :: jsnumber
  bedrooms :: jsnumber
  bathrooms :: jsnumber
  location :: string
  maintenancePercentage :: jsnumber
  vacancyRate :: jsnumber

record PropertyDetails =
  propertyType :: string
  location :: string
  bedrooms :: jsnumber
  bathrooms :: jsnumber
  purchasePrice :: jsnumber
  totalPurchaseCost :: jsnumber

record FinancingDetails =
  deposit :: jsnumber
  loanAmount :: jsnumber
  interestRate :: jsnumber
  loanTerm :: jsnumber
  monthlyBondRepayment :: jsnumber

record RentalDetails =
  expectedRent :: jsnumber
  vacancyRate :: jsnumber
  effectiveRent :: jsnumber

record Forecast =
  propertyDetails :: PropertyDetails
  financingDetails :: FinancingDetails
  purchaseCosts :: PurchaseCosts
  rentalDetails :: RentalDetails
  expenses :: MonthlyExpenses
  yields :: YieldMetrics
  cashFlow :: CashFlowMetrics
  roi :: ROIProjection
  breakeven :: BreakevenResult
  investmentSummary :: string

definition generatePropertyForecast :: "'a PropertyData_scheme \<Rightarrow> Forecast" where
  "generatePropertyForecast propertyData =
    (let propertyType = PropertyData.propertyType propertyData;
         purchasePrice = PropertyData.purchasePrice propertyData;
         deposit = PropertyData.deposit propertyData;
         interestRate = PropertyData.interestRate propertyData;
         loanTerm = PropertyData.loanTerm propertyData;
         monthlyLevies = PropertyData.monthlyLevies propertyData;
         monthlyRates = PropertyData.monthlyRates propertyData;
         expectedRent = PropertyData.expectedRent propertyData;
         bedrooms = PropertyData.bedrooms propertyData;
         bathrooms = PropertyData.bathrooms propertyData;
         location = PropertyData.location propertyData;
         maintenancePercentage = PropertyData.maintenancePercentage propertyData;
         vacancyRate = PropertyData.vacancyRate propertyData;
         loanAmount = js_sub purchasePrice deposit;
         purchaseCosts = calculateTotalPurchaseCosts purchasePrice;
         totalPurchaseCost = js_add purchasePrice (PurchaseCosts.total purchaseCosts);
         monthlyBondRepayment = calculateMonthlyBondRepayment loanAmount interestRate loanTerm;
         expenses =
           calculateMonthlyExpenses
             \<lparr> MonthlyExpensesParams.purchasePrice = purchasePrice,
               MonthlyExpensesParams.monthlyLevies = monthlyLevies,
               MonthlyExpensesParams.monthlyRates = monthlyRates,
               MonthlyExpensesParams.maintenancePercentage = maintenancePercentage \<rparr>;
         effectiveRent = calculateEffectiveRentalIncome expectedRent vacancyRate;
         yields =
           calculateYields
             \<lparr> YieldsParams.purchasePrice = purchasePrice,
               YieldsParams.totalPurchaseCost = totalPurchaseCost,
               YieldsParams.expectedRent = expectedRent,
               YieldsParams.effectiveRent = effectiveRent,
               YieldsParams.monthlyExpenses = MonthlyExpenses.total expenses \<rparr>;
         cashFlow =
           calculateCashFlow
             \<lparr> CashFlowParams.effectiveRent = effectiveRent,
               CashFlowParams.monthlyExpenses = MonthlyExpenses.total expenses,
               CashFlowParams.monthlyBondRepayment = monthlyBondRepayment \<rparr>;
         roi =
           calculateROI
             \<lparr> ROIParams.deposit = deposit,
               ROIParams.totalPurchaseCost = totalPurchaseCost,
               ROIParams.annualCashFlow = annual cashFlow,
               ROIParams.monthlyBondRepayment = monthlyBondRepayment,
               ROIParams.loanTermYears = loanTerm,
               ROIParams.annualAppreciationRate = None \<rparr>;
         breakeven =
           calculateBreakeven (js_add deposit (PurchaseCosts.total purchaseCosts))
             (monthly cashFlow)
     in \<lparr> propertyDetails =
            \<lparr> PropertyDetails.propertyType = propertyType,
              PropertyDetails.location = location,
              PropertyDetails.bedrooms = bedrooms,
              PropertyDetails.bathrooms = bathrooms,
              PropertyDetails.purchasePrice = purchasePrice,
              PropertyDetails.totalPurchaseCost = totalPurchaseCost \<rparr>,
          financingDetails =
            \<lparr> FinancingDetails.deposit = deposit,
              FinancingDetails.loanAmount = loanAmount,
              FinancingDetails.interestRate = interestRate,
              FinancingDetails.loanTerm = loanTerm,
              FinancingDetails.monthlyBondRepayment = monthlyBondRepayment \<rparr>,
          purchaseCosts = purchaseCosts,
          rentalDetails =
            \<lparr> RentalDetails.expectedRent = expectedRent,
              RentalDetails.vacancyRate = vacancyRate,
              RentalDetails.effectiveRent = effectiveRent \<rparr>,
          expenses = expenses,
          Forecast.yields = yields,
          Forecast.cashFlow = cashFlow,
          Forecast.roi = roi,
          Forecast.breakeven = breakeven,
          investmentSummary =
            generateInvestmentSummary
              \<lparr> SummaryParams.cashFlow = cashFlow,
                SummaryParams.yields = yields,
                SummaryParams.roi = roi,
                SummaryParams.breakeven = breakeven \<rparr> \<rparr>)"

section \<open>Scenario inputs and tolerance\<close>

text \<open>
  A computed amount lies within a tolerance of an expected figure when it is a finite number
  and differs from the figure by at most the tolerance.
\<close>

definition within_tolerance :: "jsnumber \<Rightarrow> real \<Rightarrow> real \<Rightarrow> bool" where
  "within_tolerance v expected tolerance =
    (case v of
       Number x \<Rightarrow> \<bar>x - expected\<bar> \<le> tolerance
     | Infinity \<Rightarrow> False
     | NegInfinity \<Rightarrow> False
     | NaN \<Rightarrow> False)"

text \<open>The round-trip scenario: 1,200,000 at 10.75\% over 20 years with 200,000 down.\<close>

definition scenarioPropertyData :: PropertyData where
  "scenarioPropertyData =
    \<lparr> PropertyData.propertyType = ''apartment'',
      PropertyData.purchasePrice = Number 1200000,
      PropertyData.deposit = Number 200000,
      PropertyData.interestRate = Number 10.75,
      PropertyData.loanTerm = Number 20,
      PropertyData.monthlyLevies = Number 1800,
      PropertyData.monthlyRates = Number 950,
      PropertyData.expectedRent = Number 8500,
      PropertyData.bedrooms = Number 2,
      PropertyData.bathrooms = Number 1,
      PropertyData.location = ''Rondebosch, Cape Town'',
      PropertyData.maintenancePercentage = Number 1,
      PropertyData.vacancyRate = Number 5 \<rparr>"

text \<open>Two ROI inputs that differ in the loan term only.\<close>

definition roiParams20 :: ROIParams where
  "roiParams20 =
    \<lparr> ROIParams.deposit = Number 200000,
      ROIParams.totalPurchaseCost = Number 1225000,
      ROIParams.annualCashFlow = Number 7200,
      ROIParams.monthlyBondRepayment = Number 10152,
      ROIParams.loanTermYears = Number 20,
      ROIParams.annualAppreciationRate = None \<rparr>"

definition roiParams30 :: ROIParams where
  "roiParams30 = roiParams20 \<lparr> ROIParams.loanTermYears := Number 30 \<rparr>"

text \<open>The forecast figures of the narrative scenario.\<close>

definition scenarioSummaryParams :: SummaryParams where
  "scenarioSummaryParams =
    \<lparr> SummaryParams.cashFlow = \<lparr> monthly = Number 600, annual = Number 7200 \<rparr>,
      SummaryParams.yields =
        \<lparr> grossYieldOnPrice = Number 11, grossYieldOnInvestment = Number 10,
          netYieldOnPrice = Number 10, netYieldOnInvestment = Number 9 \<rparr>,
      SummaryParams.roi =
        \<lparr> fiveYear =
            \<lparr> ROIHorizon.appreciation = Number 0, ROIHorizon.cashFlow = Number 0,
              ROIHorizon.equityBuild = Number 0, ROIHorizon.totalReturn = Number 0,
              ROIHorizon.roi = Number 0, ROIHorizon.annualizedROI = Number 0 \<rparr>,
          tenYear =
            \<lparr> ROIHorizon.appreciation = Number 0, ROIHorizon.cashFlow = Number 0,
              ROIHorizon.equityBuild = Number 0, ROIHorizon.totalReturn = Number 0,
              ROIHorizon.roi = Number 0, ROIHorizon.annualizedROI = Number 16 \<rparr> \<rparr>,
      SummaryParams.breakeven = \<lparr> months = Number 36, years = Number 3 \<rparr> \<rparr>"

section \<open>Arithmetic on finite numbers\<close>

lemma js_sub_Number [simp]: "js_sub (Number x) (Number y) = Number (x - y)"
  by (simp add: js_sub_def)

text \<open>On a positive base \<open>Math.pow\<close> is the real power function, whatever the exponent.\<close>

lemma Math_pow_positive_base:
  assumes "0 < x"
  shows "Math_pow (Number x) (Number y) = Number (x powr y)"
proof (cases "y = 0")
  case True
  with assms show ?thesis by simp
next
  case False
  show ?thesis
  proof (cases "is_integral y")
    case True
    then have y: "y = of_int \<lfloor>y\<rfloor>"
      unfolding is_integral_def by (rule sym)
    have "x powr of_int \<lfloor>y\<rfloor> = x powi \<lfloor>y\<rfloor>"
      using assms by (intro powr_real_of_int') auto
    with y have "x powr y = x powi \<lfloor>y\<rfloor>" by simp
    with assms False True show ?thesis by simp
  next
    case False
    with assms \<open>y \<noteq> 0\<close> show ?thesis by simp
  qed
qed

text \<open>A numeral exponent is a plain power, also on a zero or negative base.\<close>

lemma Math_pow_numeral:
  "Math_pow (Number x) (Number (numeral n)) = Number (x ^ numeral n)"
  by (simp add: is_integral_def)

lemma appreciation_finite:
  "calculateAppreciation (Number v) (Number a) (Number (numeral n)) =
     Number (v * (1 + a / 100) ^ numeral n - v)"
  by (simp add: calculateAppreciation_def Math_pow_numeral del: Math_pow.simps)

lemma equityBuild_finite:
  "calculateEquityBuild (Number b) l (Number y) = Number (b * 12 * y * 0.4)"
  by (simp add: calculateEquityBuild_def)

subsection \<open>The growth factor of the scenario loan\<close>

text \<open>
  \<open>(1 + 10.75 / 1200) ^ 240\<close> is enclosed by squaring an enclosure of the fifteenth power
  four times, rounding outwards to eight decimals at each step.
\<close>

lemma square_enclosure:
  fixes a b y a' b' :: real
  assumes "a \<le> y" and "y \<le> b" and "0 \<le> a" and "a' \<le> a\<^sup>2" and "b\<^sup>2 \<le> b'"
  shows "a' \<le> y\<^sup>2 \<and> y\<^sup>2 \<le> b'"
proof
  from assms have "a\<^sup>2 \<le> y\<^sup>2" by (intro power_mono) auto
  with assms show "a' \<le> y\<^sup>2" by linarith
  from assms have "y\<^sup>2 \<le> b\<^sup>2" by (intro power_mono) auto
  with assms show "y\<^sup>2 \<le> b'" by linarith
qed

lemma growth_factor_enclosure:
  "8.50306562 \<le> (4843 / 4800 :: real) ^ 240 \<and> (4843 / 4800 :: real) ^ 240 \<le> 8.50306744"
proof -
  define x :: real where "x = 4843 / 4800"
  have e15: "1.1431375 \<le> x ^ 15 \<and> x ^ 15 \<le> 1.14313751"
    by (simp add: x_def power_divide)
  have "1.30676334 \<le> (x ^ 15)\<^sup>2 \<and> (x ^ 15)\<^sup>2 \<le> 1.30676337"
    using e15
    by (intro square_enclosure[of "1.1431375" _ "1.14313751"]) (simp_all add: power2_eq_square)
  then have e30: "1.30676334 \<le> x ^ 30 \<and> x ^ 30 \<le> 1.30676337"
    by (simp flip: power_mult)
  have "1.70763042 \<le> (x ^ 30)\<^sup>2 \<and> (x ^ 30)\<^sup>2 \<le> 1.70763051"
    using e30
    by (intro square_enclosure[of "1.30676334" _ "1.30676337"]) (simp_all add: power2_eq_square)
  then have e60: "1.70763042 \<le> x ^ 60 \<and> x ^ 60 \<le> 1.70763051"
    by (simp flip: power_mult)
  have "2.91600165 \<le> (x ^ 60)\<^sup>2 \<and> (x ^ 60)\<^sup>2 \<le> 2.91600196"
    using e60
    by (intro square_enclosure[of "1.70763042" _ "1.70763051"]) (simp_all add: power2_eq_square)
  then have e120: "2.91600165 \<le> x ^ 120 \<and> x ^ 120 \<le> 2.91600196"
    by (simp flip: power_mult)
  have "8.50306562 \<le> (x ^ 120)\<^sup>2 \<and> (x ^ 120)\<^sup>2 \<le> 8.50306744"
    using e120
    by (intro square_enclosure[of "2.91600165" _ "2.91600196"]) (simp_all add: power2_eq_square)
  then have "8.50306562 \<le> x ^ 240 \<and> x ^ 240 \<le> 8.50306744"
    by (simp flip: power_mult)
  then show ?thesis by (simp only: x_def)
qed

lemma scenario_pow:
  "Math_pow (Number (4843 / 4800)) (Number 240) = Number ((4843 / 4800) ^ 240)"
  by (simp add: is_integral_def)

lemma scenario_repayment_value:
  "calculateMonthlyBondRepayment (Number 1000000) (Number 10.75) (Number 20) =
     Number (1000000 * (43 / 4800 * (4843 / 4800) ^ 240) / ((4843 / 4800) ^ 240 - 1))"
proof -
  have rate: "js_div (js_div (Number 10.75) (Number 100)) (Number 12) = Number (43 / 4800)"
    by simp
  have payments: "js_mul (Number 20) (Number 12) = Number 240"
    by simp
  have base: "js_add (Number 1) (Number (43 / 4800)) = Number (4843 / 4800)"
    by simp
  have "(1 :: real) < 8.50306562"
    by simp
  also have "\<dots> \<le> (4843 / 4800) ^ 240"
    using growth_factor_enclosure by (rule conjunct1)
  finally have nonzero: "(4843 / 4800 :: real) ^ 240 \<noteq> 1"
    by (metis less_irrefl)
  show ?thesis
    unfolding calculateMonthlyBondRepayment_def Let_def rate payments base scenario_pow
    using nonzero by simp
qed

lemma scenario_repayment_enclosure:
  fixes q :: real
  assumes "8.50306562 \<le> q" and "q \<le> 8.50306744"
  shows "10152 < 1000000 * (43 / 4800 * q) / (q - 1)
    \<and> 1000000 * (43 / 4800 * q) / (q - 1) < 10153"
proof -
  from assms have pos: "0 < q - 1" by simp
  have lower: "10152 * (q - 1) < 1000000 * (43 / 4800 * q)"
    using assms by simp
  have upper: "1000000 * (43 / 4800 * q) < 10153 * (q - 1)"
    using assms by simp
  from pos lower upper show ?thesis
    by (simp add: pos_less_divide_eq pos_divide_less_eq)
qed

lemmas scenario_repayment_bounds =
  scenario_repayment_enclosure[OF growth_factor_enclosure[THEN conjunct1]
    growth_factor_enclosure[THEN conjunct2]]

subsection \<open>The narrative of the scenario forecast\<close>

lemma scenario_summary:
  assumes "monthly (SummaryParams.cashFlow params) = Number 600"
    and "netYieldOnInvestment (SummaryParams.yields params) = Number 9"
    and "annualizedROI (tenYear (SummaryParams.roi params)) = Number 16"
    and "years (SummaryParams.breakeven params) = Number 3"
  shows "generateInvestmentSummary params =
      ''This property is cash flow positive, generating a healthy monthly surplus. '' @
      ''The net yield is excellent compared to South African market averages. '' @
      ''The 10-year return on investment projection is very strong. '' @
      ''You should recover your initial investment relatively quickly. '' @
      ''Overall, this property appears to be a strong investment opportunity.''"
  using assms by (simp add: generateInvestmentSummary_def js_gt_def)

section \<open>Results\<close>

subsection \<open>Transfer duty and attorney fees\<close>

text \<open>
  C1. For every purchase price, calculateTransferDuty is the six-band progressive marginal
  schedule: nothing up to 1,000,000, then in each band the cumulative duty of the bands
  below plus 3\%, 6\%, 8\%, 11\% and 13\% of the excess over the band's floor; the duty
  on exactly 1,000,000 is 0.
\<close>

theorem transferDuty_progressive:
  "calculateTransferDuty (Number p) = Number (progressive_duty p)
   \<and> calculateTransferDuty (Number 1000000) = Number 0"
  by (simp add: calculateTransferDuty_def progressive_duty_def duty_bands_def)

text \<open>
  C2. The duty is continuous at each of the five thresholds 1,000,000, 1,375,000, 1,925,000,
  2,475,000 and 11,000,000: at the threshold the lower band's formula gives exactly the
  cumulative base of the upper band, and an excess \<open>e\<close> over the threshold (here up to the
  width of the narrowest band) adds the upper band's rate times \<open>e\<close> to that base.
\<close>

theorem transferDuty_continuous_at_thresholds:
  assumes "0 \<le> e" and "e \<le> 375000"
  shows "calculateTransferDuty (Number 1000000) = Number 0
    \<and> calculateTransferDuty (Number (1000000 + e)) = Number (0 + e * 0.03)
    \<and> calculateTransferDuty (Number 1375000) = Number 11250
    \<and> calculateTransferDuty (Number (1375000 + e)) = Number (11250 + e * 0.06)
    \<and> calculateTransferDuty (Number 1925000) = Number 44250
    \<and> calculateTransferDuty (Number (1925000 + e)) = Number (44250 + e * 0.08)
    \<and> calculateTransferDuty (Number 2475000) = Number 88250
    \<and> calculateTransferDuty (Number (2475000 + e)) = Number (88250 + e * 0.11)
    \<and> calculateTransferDuty (Number 11000000) = Number 1026000
    \<and> calculateTransferDuty (Number (11000000 + e)) = Number (1026000 + e * 0.13)"
  using assms by (simp add: calculateTransferDuty_def)

theorem transferDuty_continuous_at_thresholds_witness:
  "calculateTransferDuty (Number 1000000) = Number 0
    \<and> calculateTransferDuty (Number (1000000 + 1000)) = Number (0 + 1000 * 0.03)
    \<and> calculateTransferDuty (Number 1375000) = Number 11250
    \<and> calculateTransferDuty (Number (1375000 + 1000)) = Number (11250 + 1000 * 0.06)
    \<and> calculateTransferDuty (Number 1925000) = Number 44250
    \<and> calculateTransferDuty (Number (1925000 + 1000)) = Number (44250 + 1000 * 0.08)
    \<and> calculateTransferDuty (Number 2475000) = Number 88250
    \<and> calculateTransferDuty (Number (2475000 + 1000)) = Number (88250 + 1000 * 0.11)
    \<and> calculateTransferDuty (Number 11000000) = Number 1026000
    \<and> calculateTransferDuty (Number (11000000 + 1000)) = Number (1026000 + 1000 * 0.13)"
  using transferDuty_continuous_at_thresholds[of 1000] by simp

text \<open>
  C9. For every purchase price, calculateAttorneyFees is the fee of a five-band table, each
  band a fixed base plus a marginal rate on the excess over the band's floor, multiplied
  by the surcharge factor 1.15.
\<close>

theorem attorneyFees_piecewise:
  "calculateAttorneyFees (Number p) = Number (band_fee attorney_bands p * 1.15)
   \<and> length attorney_bands = 5"
  by (simp add: calculateAttorneyFees_def attorney_bands_def)

subsection \<open>Bond repayment\<close>

text \<open>
  C3. With a zero rate and a term \<open>t > 0\<close> the repayment is the principal divided by
  \<open>t * 12\<close>. With a nonzero annual rate \<open>a\<close> it is the amortisation formula
  \<open>P * (r * (1 + r) ^ n) / ((1 + r) ^ n - 1)\<close> with \<open>r = a / 1200\<close> and \<open>n\<close> the term times 12:
  as the JavaScript expression for any principal and term, and as a real number when the
  growth factor \<open>1 + r\<close> is positive and the term is positive.
\<close>

theorem bondRepayment_formula:
  assumes "0 < t" and "a \<noteq> 0" and "- 1200 < a'" and "a' \<noteq> 0"
  shows "calculateMonthlyBondRepayment P (Number 0) (Number t) = js_div P (Number (t * 12))
    \<and> calculateMonthlyBondRepayment (Number p) (Number 0) (Number t) = Number (p / (t * 12))
    \<and> calculateMonthlyBondRepayment P (Number a) T =
        (let r = Number (a / 1200); n = js_mul T (Number 12)
         in js_div (js_mul P (js_mul r (Math_pow (js_add (Number 1) r) n)))
              (js_sub (Math_pow (js_add (Number 1) r) n) (Number 1)))
    \<and> calculateMonthlyBondRepayment (Number p) (Number a') (Number t) =
        (let r = a' / 1200; n = t * 12
         in Number (p * (r * (1 + r) powr n) / ((1 + r) powr n - 1)))"
proof (intro conjI)
  from \<open>0 < t\<close>
  show "calculateMonthlyBondRepayment P (Number 0) (Number t) = js_div P (Number (t * 12))"
    by (simp add: calculateMonthlyBondRepayment_def)
next
  from \<open>0 < t\<close>
  show "calculateMonthlyBondRepayment (Number p) (Number 0) (Number t) = Number (p / (t * 12))"
    by (simp add: calculateMonthlyBondRepayment_def)
next
  from \<open>a \<noteq> 0\<close>
  show "calculateMonthlyBondRepayment P (Number a) T =
        (let r = Number (a / 1200); n = js_mul T (Number 12)
         in js_div (js_mul P (js_mul r (Math_pow (js_add (Number 1) r) n)))
              (js_sub (Math_pow (js_add (Number 1) r) n) (Number 1)))"
    by (simp add: calculateMonthlyBondRepayment_def Let_def)
next
  define r where "r = a' / 1200"
  define n where "n = t * 12"
  from assms have r: "r \<noteq> 0" "0 < 1 + r" "1 + r \<noteq> 1" and n: "n \<noteq> 0"
    by (simp_all add: r_def n_def)
  have pw: "Math_pow (Number (1 + r)) (Number n) = Number ((1 + r) powr n)"
    using r by (intro Math_pow_positive_base)
  have ne: "(1 + r) powr n \<noteq> 1"
    using r n by simp
  have "calculateMonthlyBondRepayment (Number p) (Number a') (Number t) =
      Number (p * (r * (1 + r) powr n) / ((1 + r) powr n - 1))"
    using r pw ne
    by (simp add: calculateMonthlyBondRepayment_def Let_def flip: r_def n_def)
  then show "calculateMonthlyBondRepayment (Number p) (Number a') (Number t) =
        (let r = a' / 1200; n = t * 12
         in Number (p * (r * (1 + r) powr n) / ((1 + r) powr n - 1)))"
    by (simp add: r_def n_def Let_def)
qed

theorem bondRepayment_formula_witness:
  "calculateMonthlyBondRepayment (Number 1200) (Number 0) (Number 1) = js_div (Number 1200) (Number (1 * 12))
    \<and> calculateMonthlyBondRepayment (Number 1200) (Number 0) (Number 1) = Number (1200 / (1 * 12))
    \<and> calculateMonthlyBondRepayment (Number 1200) (Number 12) (Number 1) =
        (let r = Number (12 / 1200); n = js_mul (Number 1) (Number 12)
         in js_div (js_mul (Number 1200) (js_mul r (Math_pow (js_add (Number 1) r) n)))
              (js_sub (Math_pow (js_add (Number 1) r) n) (Number 1)))
    \<and> calculateMonthlyBondRepayment (Number 1200) (Number 12) (Number 1) =
        (let r = 12 / 1200; n = 1 * 12
         in Number (1200 * (r * (1 + r) powr n) / ((1 + r) powr n - 1)))"
proof -
  have "(0 :: real) < 1" and "(12 :: real) \<noteq> 0" and "- 1200 < (12 :: real)"
    and "(12 :: real) \<noteq> 0"
    by simp_all
  then show ?thesis
    by (rule bondRepayment_formula[of 1 12 12 "Number 1200" 1200 "Number 1"])
qed

text \<open>
  C4 (as amended). In the scenario of a price of 1,200,000, a deposit of 200,000, 10.75\% and
  20 years, the loan amount is 1,000,000, the monthly repayment is
  calculateMonthlyBondRepayment(1000000, 10.75, 20) and lies within 1 unit of 10,152, and
  the transfer duty is 6,000.
\<close>

theorem scenario_round_trip:
  fixes propertyData :: "'a PropertyData_scheme"
  assumes "PropertyData.purchasePrice propertyData = Number 1200000"
    and "PropertyData.deposit propertyData = Number 200000"
    and "PropertyData.interestRate propertyData = Number 10.75"
    and "PropertyData.loanTerm propertyData = Number 20"
  shows "loanAmount (financingDetails (generatePropertyForecast propertyData)) = Number 1000000
    \<and> FinancingDetails.monthlyBondRepayment
          (financingDetails (generatePropertyForecast propertyData))
        = calculateMonthlyBondRepayment (Number 1000000) (Number 10.75) (Number 20)
    \<and> within_tolerance
          (calculateMonthlyBondRepayment (Number 1000000) (Number 10.75) (Number 20)) 10152 1
    \<and> calculateTransferDuty (Number 1200000) = Number 6000
    \<and> PurchaseCosts.transferDuty (purchaseCosts (generatePropertyForecast propertyData))
        = Number 6000"
proof -
  have loan: "js_sub (Number 1200000) (Number 200000) = Number 1000000"
    by simp
  have duty: "calculateTransferDuty (Number 1200000) = Number 6000"
    by (simp add: calculateTransferDuty_def)
  have pay: "within_tolerance
      (calculateMonthlyBondRepayment (Number 1000000) (Number 10.75) (Number 20)) 10152 1"
    using scenario_repayment_bounds
    unfolding scenario_repayment_value within_tolerance_def
    by simp
  have fields:
    "loanAmount (financingDetails (generatePropertyForecast propertyData)) =
       js_sub (PropertyData.purchasePrice propertyData) (PropertyData.deposit propertyData)"
    "FinancingDetails.monthlyBondRepayment
        (financingDetails (generatePropertyForecast propertyData)) =
       calculateMonthlyBondRepayment
         (js_sub (PropertyData.purchasePrice propertyData) (PropertyData.deposit propertyData))
         (PropertyData.interestRate propertyData) (PropertyData.loanTerm propertyData)"
    "PurchaseCosts.transferDuty (purchaseCosts (generatePropertyForecast propertyData)) =
       calculateTransferDuty (PropertyData.purchasePrice propertyData)"
    by (simp_all add: generatePropertyForecast_def calculateTotalPurchaseCosts_def Let_def)
  show ?thesis
    unfolding fields assms loan
    using duty pay by (intro conjI) (rule refl | assumption)+
qed

theorem scenario_round_trip_witness:
  "loanAmount (financingDetails (generatePropertyForecast scenarioPropertyData)) = Number 1000000
    \<and> FinancingDetails.monthlyBondRepayment
          (financingDetails (generatePropertyForecast scenarioPropertyData))
        = calculateMonthlyBondRepayment (Number 1000000) (Number 10.75) (Number 20)
    \<and> within_tolerance
          (calculateMonthlyBondRepayment (Number 1000000) (Number 10.75) (Number 20)) 10152 1
    \<and> calculateTransferDuty (Number 1200000) = Number 6000
    \<and> PurchaseCosts.transferDuty (purchaseCosts (generatePropertyForecast scenarioPropertyData))
        = Number 6000"
  by (rule scenario_round_trip) (simp_all add: scenarioPropertyData_def)

text \<open>
  The claim as the specification has it, with the repayment within 1 unit of 9,952, fails:
  the repayment of the scenario loan is more than 10,152.
\<close>

theorem scenario_repayment_not_9952:
  "\<not> within_tolerance
      (calculateMonthlyBondRepayment (Number 1000000) (Number 10.75) (Number 20)) 9952 1"
  using scenario_repayment_bounds
  unfolding scenario_repayment_value within_tolerance_def
  by simp

subsection \<open>ROI projection\<close>

text \<open>
  C5. In calculateROI the initial investment is computed as
  \<open>deposit + (totalPurchaseCost - deposit)\<close>, which for every record of finite numbers is the
  total purchase cost; so at both horizons the reported roi is the total return divided by
  the total purchase cost, times 100, and the annualized ROI is
  \<open>((1 + roi / 100) ^ (1 / y) - 1) * 100\<close> for \<open>y\<close> = 5 and 10. The total return itself is
  appreciation plus cash flow plus equity build of the inputs: for finite inputs the number
  \<open>c * (1 + rate / 100) ^ y - c + f * y + b * 12 * y * 0.4\<close>, so that for a nonzero total
  purchase cost \<open>c\<close> the roi is that number divided by \<open>c\<close>, times 100.
\<close>

theorem roi_initialInvestment:
  fixes d c f b :: real
    and l f' b' l' :: jsnumber
    and r :: "real option"
    and r' :: "jsnumber option"
    and q :: ROIParams
  defines "params \<equiv>
    \<lparr> ROIParams.deposit = Number d,
      ROIParams.totalPurchaseCost = Number c,
      ROIParams.annualCashFlow = f',
      ROIParams.monthlyBondRepayment = b',
      ROIParams.loanTermYears = l',
      ROIParams.annualAppreciationRate = r' \<rparr>"
  defines "finiteParams \<equiv>
    \<lparr> ROIParams.deposit = Number d,
      ROIParams.totalPurchaseCost = Number c,
      ROIParams.annualCashFlow = Number f,
      ROIParams.monthlyBondRepayment = Number b,
      ROIParams.loanTermYears = l,
      ROIParams.annualAppreciationRate = map_option Number r \<rparr>"
  defines "rate \<equiv> (case r of None \<Rightarrow> 5 | Some a \<Rightarrow> a)"
  defines "return5 \<equiv> (c * (1 + rate / 100) ^ 5 - c) + f * 5 + b * 12 * 5 * 0.4"
  defines "return10 \<equiv> (c * (1 + rate / 100) ^ 10 - c) + f * 10 + b * 12 * 10 * 0.4"
  defines "rateOf \<equiv>
    (case ROIParams.annualAppreciationRate q of None \<Rightarrow> Number 5 | Some a \<Rightarrow> a)"
  shows "ROIHorizon.roi (fiveYear (calculateROI q)) =
        js_mul
          (js_div (totalReturn (fiveYear (calculateROI q)))
            (js_add (ROIParams.deposit q)
              (js_sub (ROIParams.totalPurchaseCost q) (ROIParams.deposit q))))
          (Number 100)
    \<and> ROIHorizon.roi (tenYear (calculateROI q)) =
        js_mul
          (js_div (totalReturn (tenYear (calculateROI q)))
            (js_add (ROIParams.deposit q)
              (js_sub (ROIParams.totalPurchaseCost q) (ROIParams.deposit q))))
          (Number 100)
    \<and> js_add (Number d) (js_sub (Number c) (Number d)) = Number c
    \<and> ROIHorizon.roi (fiveYear (calculateROI params)) =
        js_mul (js_div (totalReturn (fiveYear (calculateROI params))) (Number c)) (Number 100)
    \<and> ROIHorizon.roi (tenYear (calculateROI params)) =
        js_mul (js_div (totalReturn (tenYear (calculateROI params))) (Number c)) (Number 100)
    \<and> annualizedROI (fiveYear (calculateROI params)) =
        js_mul
          (js_sub
            (Math_pow
              (js_add (Number 1)
                (js_div (ROIHorizon.roi (fiveYear (calculateROI params))) (Number 100)))
              (Number (1 / 5)))
            (Number 1))
          (Number 100)
    \<and> annualizedROI (tenYear (calculateROI params)) =
        js_mul
          (js_sub
            (Math_pow
              (js_add (Number 1)
                (js_div (ROIHorizon.roi (tenYear (calculateROI params))) (Number 100)))
              (Number (1 / 10)))
            (Number 1))
          (Number 100)
    \<and> totalReturn (fiveYear (calculateROI q)) =
        js_add
          (js_add (calculateAppreciation (ROIParams.totalPurchaseCost q) rateOf (Number 5))
            (js_mul (ROIParams.annualCashFlow q) (Number 5)))
          (calculateEquityBuild (ROIParams.monthlyBondRepayment q) (ROIParams.loanTermYears q)
            (Number 5))
    \<and> totalReturn (tenYear (calculateROI q)) =
        js_add
          (js_add (calculateAppreciation (ROIParams.totalPurchaseCost q) rateOf (Number 10))
            (js_mul (ROIParams.annualCashFlow q) (Number 10)))
          (calculateEquityBuild (ROIParams.monthlyBondRepayment q) (ROIParams.loanTermYears q)
            (Number 10))
    \<and> totalReturn (fiveYear (calculateROI finiteParams)) = Number return5
    \<and> totalReturn (tenYear (calculateROI finiteParams)) = Number return10
    \<and> (c \<noteq> 0 \<longrightarrow>
          ROIHorizon.roi (fiveYear (calculateROI finiteParams)) = Number (return5 / c * 100)
        \<and> ROIHorizon.roi (tenYear (calculateROI finiteParams)) = Number (return10 / c * 100))
    \<and> (c \<noteq> 0 \<and> 0 < 1 + return5 / c \<longrightarrow>
          annualizedROI (fiveYear (calculateROI finiteParams)) =
            Number (((1 + return5 / c * 100 / 100) powr (1 / 5) - 1) * 100))
    \<and> (c \<noteq> 0 \<and> 0 < 1 + return10 / c \<longrightarrow>
          annualizedROI (tenYear (calculateROI finiteParams)) =
            Number (((1 + return10 / c * 100 / 100) powr (1 / 10) - 1) * 100))"
proof -
  have computed:
    "ROIHorizon.roi (fiveYear (calculateROI q)) =
        js_mul
          (js_div (totalReturn (fiveYear (calculateROI q)))
            (js_add (ROIParams.deposit q)
              (js_sub (ROIParams.totalPurchaseCost q) (ROIParams.deposit q))))
          (Number 100)"
    "ROIHorizon.roi (tenYear (calculateROI q)) =
        js_mul
          (js_div (totalReturn (tenYear (calculateROI q)))
            (js_add (ROIParams.deposit q)
              (js_sub (ROIParams.totalPurchaseCost q) (ROIParams.deposit q))))
          (Number 100)"
    by (simp_all add: calculateROI_def Let_def)
  have reduces: "js_add (Number d) (js_sub (Number c) (Number d)) = Number c"
    by simp
  have reported:
    "ROIHorizon.roi (fiveYear (calculateROI params)) =
        js_mul (js_div (totalReturn (fiveYear (calculateROI params))) (Number c)) (Number 100)"
    "ROIHorizon.roi (tenYear (calculateROI params)) =
        js_mul (js_div (totalReturn (tenYear (calculateROI params))) (Number c)) (Number 100)"
    using reduces by (simp_all add: params_def calculateROI_def Let_def)
  have annualized:
    "annualizedROI (fiveYear (calculateROI params)) =
        js_mul
          (js_sub
            (Math_pow
              (js_add (Number 1)
                (js_div (ROIHorizon.roi (fiveYear (calculateROI params))) (Number 100)))
              (Number (1 / 5)))
            (Number 1))
          (Number 100)"
    "annualizedROI (tenYear (calculateROI params)) =
        js_mul
          (js_sub
            (Math_pow
              (js_add (Number 1)
                (js_div (ROIHorizon.roi (tenYear (calculateROI params))) (Number 100)))
              (Number (1 / 10)))
            (Number 1))
          (Number 100)"
    by (simp_all add: calculateROI_def Let_def)
  have fromInputs:
    "totalReturn (fiveYear (calculateROI q)) =
        js_add
          (js_add (calculateAppreciation (ROIParams.totalPurchaseCost q) rateOf (Number 5))
            (js_mul (ROIParams.annualCashFlow q) (Number 5)))
          (calculateEquityBuild (ROIParams.monthlyBondRepayment q) (ROIParams.loanTermYears q)
            (Number 5))"
    "totalReturn (tenYear (calculateROI q)) =
        js_add
          (js_add (calculateAppreciation (ROIParams.totalPurchaseCost q) rateOf (Number 10))
            (js_mul (ROIParams.annualCashFlow q) (Number 10)))
          (calculateEquityBuild (ROIParams.monthlyBondRepayment q) (ROIParams.loanTermYears q)
            (Number 10))"
    by (simp_all add: calculateROI_def Let_def rateOf_def)
  have total5: "totalReturn (fiveYear (calculateROI finiteParams)) = Number return5"
    by (cases r)
      (simp_all add: calculateROI_def Let_def finiteParams_def rate_def appreciation_finite
        equityBuild_finite return5_def)
  have total10: "totalReturn (tenYear (calculateROI finiteParams)) = Number return10"
    by (cases r)
      (simp_all add: calculateROI_def Let_def finiteParams_def rate_def appreciation_finite
        equityBuild_finite return10_def)
  have roi5: "ROIHorizon.roi (fiveYear (calculateROI finiteParams)) =
      js_mul (js_div (totalReturn (fiveYear (calculateROI finiteParams))) (Number c)) (Number 100)"
    and roi10: "ROIHorizon.roi (tenYear (calculateROI finiteParams)) =
      js_mul (js_div (totalReturn (tenYear (calculateROI finiteParams))) (Number c)) (Number 100)"
    by (simp_all add: calculateROI_def Let_def finiteParams_def)
  have ann5: "annualizedROI (fiveYear (calculateROI finiteParams)) =
        js_mul
          (js_sub
            (Math_pow
              (js_add (Number 1)
                (js_div (ROIHorizon.roi (fiveYear (calculateROI finiteParams))) (Number 100)))
              (Number (1 / 5)))
            (Number 1))
          (Number 100)"
    and ann10: "annualizedROI (tenYear (calculateROI finiteParams)) =
        js_mul
          (js_sub
            (Math_pow
              (js_add (Number 1)
                (js_div (ROIHorizon.roi (tenYear (calculateROI finiteParams))) (Number 100)))
              (Number (1 / 10)))
            (Number 1))
          (Number 100)"
    by (simp_all add: calculateROI_def Let_def)
  have value5: "ROIHorizon.roi (fiveYear (calculateROI finiteParams)) = Number (return5 / c * 100)"
    and value10: "ROIHorizon.roi (tenYear (calculateROI finiteParams)) = Number (return10 / c * 100)"
    if "c \<noteq> 0"
    using that unfolding roi5 roi10 total5 total10 by simp_all
  have annual5: "annualizedROI (fiveYear (calculateROI finiteParams)) =
      Number (((1 + return5 / c * 100 / 100) powr (1 / 5) - 1) * 100)"
    if "c \<noteq> 0 \<and> 0 < 1 + return5 / c"
  proof -
    from that have "0 < 1 + return5 / c * 100 / 100" by simp
    then have "Math_pow (Number (1 + return5 / c * 100 / 100)) (Number (1 / 5)) =
        Number ((1 + return5 / c * 100 / 100) powr (1 / 5))"
      by (rule Math_pow_positive_base)
    with that show ?thesis
      unfolding ann5 value5[OF that[THEN conjunct1]] by simp
  qed
  have annual10: "annualizedROI (tenYear (calculateROI finiteParams)) =
      Number (((1 + return10 / c * 100 / 100) powr (1 / 10) - 1) * 100)"
    if "c \<noteq> 0 \<and> 0 < 1 + return10 / c"
  proof -
    from that have "0 < 1 + return10 / c * 100 / 100" by simp
    then have "Math_pow (Number (1 + return10 / c * 100 / 100)) (Number (1 / 10)) =
        Number ((1 + return10 / c * 100 / 100) powr (1 / 10))"
      by (rule Math_pow_positive_base)
    with that show ?thesis
      unfolding ann10 value10[OF that[THEN conjunct1]] by simp
  qed
  from computed reduces reported annualized fromInputs total5 total10 value5 value10
    annual5 annual10
  show ?thesis
    by (intro conjI impI)
qed

text \<open>
  At the sample input (total purchase cost 1,225,000, annual cash flow 7,200, monthly
  repayment 10,152, default rate) the projection is made of finite numbers: a five-year
  total return of 618,092.9140625 and a five-year roi of about 50.46.
\<close>

theorem roi_initialInvestment_witness:
  "totalReturn (fiveYear (calculateROI roiParams20)) = Number 618092.9140625
    \<and> totalReturn (tenYear (calculateROI roiParams20)) = Number (544641809531849 / 409600000)
    \<and> ROIHorizon.roi (fiveYear (calculateROI roiParams20)) =
        Number (618092.9140625 / 1225000 * 100)
    \<and> ROIHorizon.roi (tenYear (calculateROI roiParams20)) =
        Number (544641809531849 / 409600000 / 1225000 * 100)
    \<and> annualizedROI (fiveYear (calculateROI roiParams20)) =
        Number (((1 + 618092.9140625 / 1225000) powr (1 / 5) - 1) * 100)
    \<and> annualizedROI (tenYear (calculateROI roiParams20)) =
        Number (((1 + 544641809531849 / 409600000 / 1225000) powr (1 / 10) - 1) * 100)"
  using roi_initialInvestment[where d = 200000 and c = 1225000 and f = 7200 and b = 10152
      and l = "Number 20" and r = None and q = roiParams20 and f' = "Number 7200"
      and b' = "Number 10152" and l' = "Number 20" and r' = None,
      THEN conjunct2, THEN conjunct2, THEN conjunct2, THEN conjunct2, THEN conjunct2,
      THEN conjunct2, THEN conjunct2]
  by (simp add: roiParams20_def power_divide appreciation_finite equityBuild_finite)

text \<open>
  C10. Two inputs of calculateROI that agree on every field but loanTermYears give the same
  projection: calculateEquityBuild is monthlyPayment * 12 * yearsToCalculate * 0.4 and never
  reads its totalTermYears.
\<close>

theorem roi_ignores_loanTermYears:
  assumes "ROIParams.deposit a = ROIParams.deposit b"
    and "ROIParams.totalPurchaseCost a = ROIParams.totalPurchaseCost b"
    and "ROIParams.annualCashFlow a = ROIParams.annualCashFlow b"
    and "ROIParams.monthlyBondRepayment a = ROIParams.monthlyBondRepayment b"
    and "ROIParams.annualAppreciationRate a = ROIParams.annualAppreciationRate b"
  shows "calculateROI a = calculateROI b
    \<and> calculateEquityBuild m t y = js_mul (js_mul (js_mul m (Number 12)) y) (Number 0.4)"
  using assms by (simp add: calculateROI_def calculateEquityBuild_def Let_def)

theorem roi_ignores_loanTermYears_witness:
  "ROIParams.loanTermYears roiParams20 \<noteq> ROIParams.loanTermYears roiParams30
    \<and> calculateROI roiParams20 = calculateROI roiParams30
    \<and> calculateEquityBuild (Number 10152) (Number 20) (Number 5) =
        js_mul (js_mul (js_mul (Number 10152) (Number 12)) (Number 5)) (Number 0.4)"
proof -
  have "ROIParams.loanTermYears roiParams20 \<noteq> ROIParams.loanTermYears roiParams30"
    by (simp add: roiParams20_def roiParams30_def)
  moreover have "calculateROI roiParams20 = calculateROI roiParams30
    \<and> calculateEquityBuild (Number 10152) (Number 20) (Number 5) =
        js_mul (js_mul (js_mul (Number 10152) (Number 12)) (Number 5)) (Number 0.4)"
    by (rule roi_ignores_loanTermYears) (simp_all add: roiParams30_def)
  ultimately show ?thesis by (rule conjI)
qed

subsection \<open>Breakeven\<close>



subsection \<open>The forecast\<close>

text \<open>
  C7. For every input, generatePropertyForecast computes the loan amount as purchase price
  minus deposit and the total purchase cost as purchase price plus the total of the purchase
  costs; its ROI projection is calculateROI at the fixed appreciation rate 5, no rate being
  passed; its breakeven is calculateBreakeven of deposit plus the total of the purchase
  costs and the monthly cash flow.
\<close>

theorem forecast_wiring:
  fixes propertyData :: "'a PropertyData_scheme"
  defines "forecast \<equiv> generatePropertyForecast propertyData"
  shows "loanAmount (financingDetails forecast) =
      js_sub (PropertyData.purchasePrice propertyData) (PropertyData.deposit propertyData)
    \<and> purchaseCosts forecast =
      calculateTotalPurchaseCosts (PropertyData.purchasePrice propertyData)
    \<and> PropertyDetails.totalPurchaseCost (propertyDetails forecast) =
      js_add (PropertyData.purchasePrice propertyData)
        (PurchaseCosts.total (purchaseCosts forecast))
    \<and> Forecast.roi forecast =
      calculateROI
        \<lparr> ROIParams.deposit = PropertyData.deposit propertyData,
          ROIParams.totalPurchaseCost =
            PropertyDetails.totalPurchaseCost (propertyDetails forecast),
          ROIParams.annualCashFlow = annual (Forecast.cashFlow forecast),
          ROIParams.monthlyBondRepayment =
            FinancingDetails.monthlyBondRepayment (financingDetails forecast),
          ROIParams.loanTermYears = PropertyData.loanTerm propertyData,
          ROIParams.annualAppreciationRate = Some (Number 5) \<rparr>
    \<and> Forecast.breakeven forecast =
      calculateBreakeven
        (js_add (PropertyData.deposit propertyData)
          (PurchaseCosts.total (purchaseCosts forecast)))
        (monthly (Forecast.cashFlow forecast))"
  unfolding forecast_def
  by (simp add: generatePropertyForecast_def Let_def calculateROI_def)

subsection \<open>Narrative summary\<close>

text \<open>
  C8. For every forecast with a monthly cash flow of 600, a net yield on investment of 9,
  a ten-year annualized ROI of 16 and a breakeven of 3 years, the summary contains
  "healthy monthly surplus", "excellent compared to", "very strong", "recover your initial
  investment relatively quickly" and the closing sentence of a strong investment
  opportunity.
\<close>

theorem summary_fragments:
  assumes "monthly (SummaryParams.cashFlow params) = Number 600"
    and "netYieldOnInvestment (SummaryParams.yields params) = Number 9"
    and "annualizedROI (tenYear (SummaryParams.roi params)) = Number 16"
    and "years (SummaryParams.breakeven params) = Number 3"
  shows "sublist ''healthy monthly surplus'' (generateInvestmentSummary params)
    \<and> sublist ''excellent compared to'' (generateInvestmentSummary params)
    \<and> sublist ''very strong'' (generateInvestmentSummary params)
    \<and> sublist ''recover your initial investment relatively quickly''
          (generateInvestmentSummary params)
    \<and> sublist ''Overall, this property appears to be a strong investment opportunity.''
          (generateInvestmentSummary params)"
proof -
  note s = scenario_summary[OF assms]
  have 1: "sublist ''healthy monthly surplus''
      ''This property is cash flow positive, generating a healthy monthly surplus. ''"
    by code_simp
  have 2: "sublist ''excellent compared to''
      ''The net yield is excellent compared to South African market averages. ''"
    by code_simp
  have 3: "sublist ''very strong''
      ''The 10-year return on investment projection is very strong. ''"
    by code_simp
  have 4: "sublist ''recover your initial investment relatively quickly''
      ''You should recover your initial investment relatively quickly. ''"
    by code_simp
  show ?thesis
    unfolding s using 1 2 3 4
    by (auto simp only: sublist_append)
qed

theorem summary_fragments_witness:
  "sublist ''healthy monthly surplus'' (generateInvestmentSummary scenarioSummaryParams)
    \<and> sublist ''excellent compared to'' (generateInvestmentSummary scenarioSummaryParams)
    \<and> sublist ''very strong'' (generateInvestmentSummary scenarioSummaryParams)
    \<and> sublist ''recover your initial investment relatively quickly''
          (generateInvestmentSummary scenarioSummaryParams)
    \<and> sublist ''Overall, this property appears to be a strong investment opportunity.''
          (generateInvestmentSummary scenarioSummaryParams)"
  by (rule summary_fragments) (simp_all add: scenarioSummaryParams_def)

end
